theory Spec2Isabelle
  imports Complex_Main "HOL-Library.Sublist"
begin

section \<open>Planet Postcard Forge: the model of \<open>src/app/page.tsx\<close>\<close>

subsection \<open>Strings and numbers\<close>

text \<open>
  A JavaScript string is modelled as the list of its Unicode code points (the regular
  expression of \<open>downloadPng\<close> carries the \<open>u\<close> flag and works on code points; the
  dictionary keys are Japanese). \<open>ascii\<close> embeds an ASCII literal.

  A finite JavaScript number is an IEEE double, which is a real number; a number that
  comes out of \<open>Number(...)\<close> may also be \<open>NaN\<close>. The operations on doubles round, so
  they are not the operations of the real numbers: they are parameters of the platform
  below, and so are \<open>Math.cos\<close> and the conversion of a decimal literal to a double.
  The model covers the runs in which every result is finite; \<open>Infinity\<close> would need a
  cosine or a divisor that is exactly zero, or an overflow.
\<close>

type_synonym ustring = "nat list"

definition ascii :: "string \<Rightarrow> ustring" where
  "ascii s = map of_char s"

datatype jsnum = Num real | NaN

text \<open>Truthiness of a string (\<open>""\<close> is falsy), of an optional string and of an optional number
  (\<open>undefined\<close>, \<open>0\<close> and \<open>NaN\<close> are falsy).\<close>

fun truthy_str :: "ustring option \<Rightarrow> bool" where
  "truthy_str None = False"
| "truthy_str (Some s) = (s \<noteq> [])"

fun truthy_num :: "jsnum option \<Rightarrow> bool" where
  "truthy_num None = False"
| "truthy_num (Some NaN) = False"
| "truthy_num (Some (Num r)) = (r \<noteq> 0)"

text \<open>\<open>a || b\<close> on optional strings.\<close>

definition or_str :: "ustring option \<Rightarrow> ustring option \<Rightarrow> ustring option" where
  "or_str a b = (if truthy_str a then a else b)"

text \<open>\<open>s.includes(sub)\<close>: \<open>sub\<close> occurs in \<open>s\<close> as a contiguous run.\<close>

fun str_includes :: "ustring \<Rightarrow> ustring \<Rightarrow> bool" where
  "str_includes [] sub = (sub = [])"
| "str_includes (c # cs) sub = (prefix sub (c # cs) \<or> str_includes cs sub)"

text \<open>\<open>xs.join(sep)\<close>.\<close>

fun join :: "ustring \<Rightarrow> ustring list \<Rightarrow> ustring" where
  "join sep [] = []"
| "join sep [x] = x"
| "join sep (x # y # ys) = x @ sep @ join sep (y # ys)"

text \<open>\<open>s.split(c)\<close> for a one-character separator, the inverse of \<open>join\<close>.\<close>

fun splitOn :: "nat \<Rightarrow> ustring \<Rightarrow> ustring list" where
  "splitOn c [] = [[]]"
| "splitOn c (x # xs) =
     (if x = c then [] # splitOn c xs
      else (case splitOn c xs of y # ys \<Rightarrow> (x # y) # ys | [] \<Rightarrow> [[x]]))"

subsection \<open>The platform and the remote services\<close>

text \<open>
  Library functions of the JavaScript platform that the code calls, taken as parameters:
  \<open>String.prototype.toLowerCase\<close>, the conversion of a number to a string (\<open>String(n)\<close> and
  template literals), \<open>Number(s)\<close>, \<open>Intl.NumberFormat("ja-JP").format\<close>,
  \<open>new Date(s).toLocaleDateString("ja-JP")\<close>, the Unicode classes \<open>\p{L}\<close> and \<open>\p{N}\<close>,
  \<open>URLSearchParams.prototype.toString\<close>; the arithmetic of doubles (\<open>+\<close>, \<open>-\<close>, \<open>*\<close>, \<open>/\<close>,
  \<open>Math.cos\<close>, and \<open>double\<close>, the double that a decimal literal or \<open>Math.PI\<close> denotes); the
  string that \<open>String(v)\<close> gives for a member \<open>v\<close> of \<open>Object.prototype\<close>, by the name of the
  member; and the message of the \<open>TypeError\<close> raised when a method that does not exist is
  called.
\<close>

record platform =
  toLowerCase :: "ustring \<Rightarrow> ustring"
  numToString :: "real \<Rightarrow> ustring"
  parseNumber :: "ustring \<Rightarrow> jsnum"
  formatJa :: "jsnum \<Rightarrow> ustring"
  dateJa :: "ustring \<Rightarrow> ustring"
  isLetter :: "nat \<Rightarrow> bool"
  isNumber :: "nat \<Rightarrow> bool"
  urlencode :: "(ustring \<times> ustring) list \<Rightarrow> ustring"
  add64 :: "real \<Rightarrow> real \<Rightarrow> real"
  sub64 :: "real \<Rightarrow> real \<Rightarrow> real"
  mul64 :: "real \<Rightarrow> real \<Rightarrow> real"
  div64 :: "real \<Rightarrow> real \<Rightarrow> real"
  cos64 :: "real \<Rightarrow> real"
  double :: "real \<Rightarrow> real"
  inheritedToString :: "ustring \<Rightarrow> ustring"
  notAFunction :: ustring

fun jsnumToString :: "platform \<Rightarrow> jsnum \<Rightarrow> ustring" where
  "jsnumToString p (Num r) = numToString p r"
| "jsnumToString p NaN = ascii ''NaN''"

datatype lang = Ja | En

record point =
  lat :: real
  lon :: real

text \<open>
  A call of a remote service either throws (\<open>fetch\<close> rejects, the body is not JSON, or
  \<open>wikiSearchTitle\<close> sees \<open>!res.ok\<close>): \<open>Inl\<close> with the message of the error; or it yields the
  parsed answer. The answers keep what the code reads from them: the titles of
  \<open>json?.query?.search\<close> in rank order; \<open>coordinates?.[0]\<close> and \<open>pageprops?.wikibase_item\<close> of
  the first page; the values of the first SPARQL binding.
\<close>

type_synonym 'a result = "ustring + 'a"

record page =
  coordinates :: "point option"
  wikibase_item :: "ustring option"

record binding =
  itemLabel :: "ustring option"
  countryLabel :: "ustring option"
  population_value :: "ustring option"
  elev_value :: "ustring option"

record world =
  search :: "lang \<Rightarrow> ustring \<Rightarrow> ustring list result"
  pages :: "lang \<Rightarrow> ustring \<Rightarrow> page result"
  sparql :: "ustring \<Rightarrow> lang \<Rightarrow> binding option result"

subsection \<open>GeoBoxCalculator: \<open>degPerKmAtLat\<close> and the \<open>bbox\<close> memo\<close>

text \<open>
  \<^verbatim>\<open>
  function degPerKmAtLat(lat: number) {
    const degLatPerKm = 1 / 110.574;
    const degLonPerKm = 1 / (111.320 * Math.cos((lat * Math.PI) / 180));
    return { degLatPerKm, degLonPerKm };
  }
  \<close>
  Every operation is the platform's operation on doubles; the integers 1, 2 and 180 are
  doubles as they stand.
\<close>

record degPerKm =
  degLatPerKm :: real
  degLonPerKm :: real

definition degPerKmAtLat :: "platform \<Rightarrow> real \<Rightarrow> degPerKm" where
  "degPerKmAtLat p lt =
     \<lparr> degLatPerKm = div64 p 1 (double p 110.574),
       degLonPerKm =
         div64 p 1
           (mul64 p (double p 111.320) (cos64 p (div64 p (mul64 p lt (double p pi)) 180))) \<rparr>"

record box =
  south :: real
  north :: real
  west :: real
  east :: real

text \<open>
  \<^verbatim>\<open>
  const bbox = useMemo(() => {
    if (!center) return null;
    const { degLatPerKm, degLonPerKm } = degPerKmAtLat(center.lat);
    const halfLat = (scaleKm * degLatPerKm) / 2;
    const halfLon = (scaleKm * degLonPerKm) / 2;
    return { south: center.lat - halfLat, north: center.lat + halfLat,
             west: center.lon - halfLon, east: center.lon + halfLon };
  }, [center, scaleKm]);
  \<close>
\<close>

definition bbox :: "platform \<Rightarrow> point option \<Rightarrow> real \<Rightarrow> box option" where
  "bbox p center scaleKm =
     (case center of
        None \<Rightarrow> None
      | Some c \<Rightarrow>
          (let d = degPerKmAtLat p (lat c);
               halfLat = div64 p (mul64 p scaleKm (degLatPerKm d)) 2;
               halfLon = div64 p (mul64 p scaleKm (degLonPerKm d)) 2
           in Some \<lparr> south = sub64 p (lat c) halfLat, north = add64 p (lat c) halfLat,
                     west = sub64 p (lon c) halfLon, east = add64 p (lon c) halfLon \<rparr>))"

subsection \<open>ImageryRequestBuilder: \<open>buildWvsUrl\<close>\<close>

definition default_layers :: "ustring list" where
  "default_layers = [ascii ''MODIS_Terra_CorrectedReflectance_TrueColor'', ascii ''Coastlines'']"

definition default_format :: ustring where
  "default_format = ascii ''image/png''"

definition or_default :: "'a option \<Rightarrow> 'a \<Rightarrow> 'a" where
  "or_default a d = (case a of None \<Rightarrow> d | Some v \<Rightarrow> v)"

text \<open>The object handed to \<open>new URLSearchParams\<close>, as the list of its entries in insertion
  order. The optional arguments \<open>width\<close>, \<open>height\<close>, \<open>layers\<close>, \<open>format\<close> take their defaults
  when they are \<open>undefined\<close>.\<close>

definition wvsParams ::
  "platform \<Rightarrow> box \<Rightarrow> ustring \<Rightarrow> real option \<Rightarrow> real option \<Rightarrow> ustring list option \<Rightarrow>
   ustring option \<Rightarrow> (ustring \<times> ustring) list" where
  "wvsParams p b date width height layers format =
     [ (ascii ''REQUEST'', ascii ''GetSnapshot''),
       (ascii ''TIME'', date),
       (ascii ''BBOX'',
          numToString p (south b) @ ascii '','' @ numToString p (west b) @ ascii '','' @
          numToString p (north b) @ ascii '','' @ numToString p (east b)),
       (ascii ''CRS'', ascii ''EPSG:4326''),
       (ascii ''LAYERS'', join (ascii '','') (or_default layers default_layers)),
       (ascii ''FORMAT'', or_default format default_format),
       (ascii ''WIDTH'', numToString p (or_default width 1600)),
       (ascii ''HEIGHT'', numToString p (or_default height 900)) ]"

definition buildWvsUrl ::
  "platform \<Rightarrow> box \<Rightarrow> ustring \<Rightarrow> real option \<Rightarrow> real option \<Rightarrow> ustring list option \<Rightarrow>
   ustring option \<Rightarrow> ustring" where
  "buildWvsUrl p b date width height layers format =
     ascii ''https://wvs.earthdata.nasa.gov/api/v1/snapshot?'' @
     urlencode p (wvsParams p b date width height layers format)"

subsection \<open>PlaceSearchResolver: \<open>wikiSearchTitle\<close>, \<open>placeNameDict\<close>, \<open>getSearchTerm\<close>\<close>

text \<open>
  \<^verbatim>\<open>
  const results = json?.query?.search;
  if (!results || results.length === 0) { return undefined; }
  // Try to find the best match - prioritize exact matches or shorter titles
  const exactMatch = results.find((r: any) =>
    r.title.toLowerCase() === q.toLowerCase() ||
    r.title.toLowerCase().includes(q.toLowerCase()));
  return exactMatch?.title || results[0]?.title as string | undefined;
  \<close>
\<close>

definition isMatch :: "platform \<Rightarrow> ustring \<Rightarrow> ustring \<Rightarrow> bool" where
  "isMatch p q title =
     (toLowerCase p title = toLowerCase p q \<or>
      str_includes (toLowerCase p title) (toLowerCase p q))"

definition pickTitle :: "platform \<Rightarrow> ustring \<Rightarrow> ustring list \<Rightarrow> ustring option" where
  "pickTitle p q results =
     (case results of
        [] \<Rightarrow> None
      | r0 # _ \<Rightarrow> or_str (find (isMatch p q) results) (Some r0))"

definition wikiSearchTitle :: "platform \<Rightarrow> world \<Rightarrow> ustring \<Rightarrow> lang \<Rightarrow> ustring option result" where
  "wikiSearchTitle p w q l =
     (case search w l q of
        Inl e \<Rightarrow> Inl e
      | Inr results \<Rightarrow> Inr (pickTitle p q results))"

text \<open>The entries of the object literal \<open>placeNameDict\<close>, in source order (keys as code
  points): its own properties.\<close>

definition placeNameEntries :: "(ustring \<times> ustring) list" where
  "placeNameEntries =
   [([0x30a2, 0x30a4, 0x30eb, 0x30e9, 0x30f3, 0x30c9], ascii ''Ireland''),
    ([0x30a4, 0x30ae, 0x30ea, 0x30b9], ascii ''United Kingdom''),
    ([0x30d5, 0x30e9, 0x30f3, 0x30b9], ascii ''France''),
    ([0x30c9, 0x30a4, 0x30c4], ascii ''Germany''),
    ([0x30a4, 0x30bf, 0x30ea, 0x30a2], ascii ''Italy''),
    ([0x30b9, 0x30da, 0x30a4, 0x30f3], ascii ''Spain''),
    ([0x30a2, 0x30e1, 0x30ea, 0x30ab], ascii ''United States''),
    ([0x30ab, 0x30ca, 0x30c0], ascii ''Canada''),
    ([0x30aa, 0x30fc, 0x30b9, 0x30c8, 0x30e9, 0x30ea, 0x30a2], ascii ''Australia''),
    ([0x30cb, 0x30e5, 0x30fc, 0x30b8, 0x30fc, 0x30e9, 0x30f3, 0x30c9], ascii ''New Zealand''),
    ([0x4e2d, 0x56fd], ascii ''China''),
    ([0x97d3, 0x56fd], ascii ''South Korea''),
    ([0x53f0, 0x6e7e], ascii ''Taiwan''),
    ([0x30bf, 0x30a4], ascii ''Thailand''),
    ([0x30a4, 0x30f3, 0x30c9], ascii ''India''),
    ([0x30ed, 0x30b7, 0x30a2], ascii ''Russia''),
    ([0x30d6, 0x30e9, 0x30b8, 0x30eb], ascii ''Brazil''),
    ([0x30e1, 0x30ad, 0x30b7, 0x30b3], ascii ''Mexico''),
    ([0x30a8, 0x30b8, 0x30d7, 0x30c8], ascii ''Egypt''),
    ([0x5357, 0x30a2, 0x30d5, 0x30ea, 0x30ab], ascii ''South Africa''),
    ([0x5357, 0x6975], ascii ''Antarctica''),
    ([0x662d, 0x548c, 0x57fa, 0x5730], ascii ''Showa Station''),
    ([0x30de, 0x30af, 0x30de, 0x30fc, 0x30c9, 0x57fa, 0x5730], ascii ''McMurdo Station''),
    ([0x5927, 0x962a], ascii ''Osaka''),
    ([0x4eac, 0x90fd], ascii ''Kyoto''),
    ([0x540d, 0x53e4, 0x5c4b], ascii ''Nagoya''),
    ([0x6a2a, 0x6d5c], ascii ''Yokohama''),
    ([0x795e, 0x6238], ascii ''Kobe''),
    ([0x798f, 0x5ca1], ascii ''Fukuoka''),
    ([0x672d, 0x5e4c], ascii ''Sapporo''),
    ([0x4ed9, 0x53f0], ascii ''Sendai'')]"

definition placeNameDict :: "ustring \<rightharpoonup> ustring" where
  "placeNameDict = map_of placeNameEntries"

text \<open>
  The property access \<open>placeNameDict[place]\<close> goes through the prototype chain: for a name
  that is not an own property it finds the member of \<open>Object.prototype\<close> of that name, if
  there is one. Those members are functions, and for \<open>__proto__\<close> the prototype object
  itself: values that are truthy and are not strings.
\<close>

datatype jsval = Str ustring | Inherited ustring

definition objectPrototypeNames :: "ustring list" where
  "objectPrototypeNames =
     [ascii ''constructor'', ascii ''__defineGetter__'', ascii ''__defineSetter__'',
      ascii ''hasOwnProperty'', ascii ''__lookupGetter__'', ascii ''__lookupSetter__'',
      ascii ''isPrototypeOf'', ascii ''propertyIsEnumerable'', ascii ''toString'',
      ascii ''valueOf'', ascii ''__proto__'', ascii ''toLocaleString'']"

definition getProperty :: "(ustring \<rightharpoonup> ustring) \<Rightarrow> ustring \<Rightarrow> jsval option" where
  "getProperty obj k =
     (case obj k of
        Some v \<Rightarrow> Some (Str v)
      | None \<Rightarrow> if k \<in> set objectPrototypeNames then Some (Inherited k) else None)"

fun truthy_val :: "jsval option \<Rightarrow> bool" where
  "truthy_val None = False"
| "truthy_val (Some (Str s)) = (s \<noteq> [])"
| "truthy_val (Some (Inherited n)) = True"

text \<open>\<open>String(v)\<close>, as \<open>url.searchParams.set\<close> applies it to the search text.\<close>

fun toStr :: "platform \<Rightarrow> jsval \<Rightarrow> ustring" where
  "toStr p (Str s) = s"
| "toStr p (Inherited n) = inheritedToString p n"

text \<open>
  \<^verbatim>\<open>
  function getSearchTerm(place: string, lang: string): string {
    if (lang === "ja" && placeNameDict[place]) { return placeNameDict[place]; }
    return place;
  }
  \<close>
  The result is a string, except for an inherited name in \<open>ja\<close>.
\<close>

definition getSearchTerm :: "ustring \<Rightarrow> lang \<Rightarrow> jsval" where
  "getSearchTerm place l =
     (if l = Ja \<and> truthy_val (getProperty placeNameDict place)
      then (case getProperty placeNameDict place of Some v \<Rightarrow> v | None \<Rightarrow> Str place)
      else Str place)"

text \<open>
  \<open>wikiSearchTitle\<close> called with a search term that may not be a string. The request
  carries \<open>String(q)\<close>. With no result the call returns \<open>undefined\<close>; otherwise the \<open>find\<close>
  predicate evaluates \<open>q.toLowerCase()\<close> on the first result, which raises a \<open>TypeError\<close>
  when \<open>q\<close> is not a string.
\<close>

definition wikiSearchTerm :: "platform \<Rightarrow> world \<Rightarrow> jsval \<Rightarrow> lang \<Rightarrow> ustring option result" where
  "wikiSearchTerm p w v l =
     (case v of
        Str q \<Rightarrow> wikiSearchTitle p w q l
      | Inherited n \<Rightarrow>
          (case search w l (inheritedToString p n) of
             Inl e \<Rightarrow> Inl e
           | Inr results \<Rightarrow> if results = [] then Inr None else Inl (notAFunction p)))"

subsection \<open>CoordinateFactResolver: \<open>wikiTitleToCoordAndQid\<close>, \<open>wikidataFacts\<close>\<close>

record coordq = point +
  qid :: "ustring option"

definition wikiTitleToCoordAndQid :: "world \<Rightarrow> ustring \<Rightarrow> lang \<Rightarrow> coordq option result" where
  "wikiTitleToCoordAndQid w title l =
     (case pages w l title of
        Inl e \<Rightarrow> Inl e
      | Inr pg \<Rightarrow>
          (case coordinates pg of
             None \<Rightarrow> Inr None
           | Some c \<Rightarrow> Inr (Some \<lparr> lat = lat c, lon = lon c, qid = wikibase_item pg \<rparr>)))"

record facts =
  label :: "ustring option"
  country :: "ustring option"
  population :: "jsnum option"
  elev :: "jsnum option"

definition no_facts :: facts where
  "no_facts = \<lparr> label = None, country = None, population = None, elev = None \<rparr>"

text \<open>\<open>const num = (x?: string) => (x ? Number(x) : undefined)\<close>\<close>

definition num :: "platform \<Rightarrow> ustring option \<Rightarrow> jsnum option" where
  "num p x = (case x of None \<Rightarrow> None | Some s \<Rightarrow> if s \<noteq> [] then Some (parseNumber p s) else None)"

definition wikidataFacts :: "platform \<Rightarrow> world \<Rightarrow> ustring \<Rightarrow> lang \<Rightarrow> facts result" where
  "wikidataFacts p w q l =
     (case sparql w q l of
        Inl e \<Rightarrow> Inl e
      | Inr None \<Rightarrow> Inr no_facts
      | Inr (Some b) \<Rightarrow>
          Inr \<lparr> label = itemLabel b, country = countryLabel b,
                population = num p (population_value b), elev = num p (elev_value b) \<rparr>)"

subsection \<open>The component state and \<open>onGenerate\<close>\<close>

text \<open>
  The React state of \<open>PlanetPostcardForge\<close>. The status line is one of the fixed messages
  of the source, or the failure message built in the \<open>catch\<close> block.
\<close>

datatype status =
    Clear
  | Searching
  | PageNotFound
  | GettingCoordinates
  | GettingDetails
  | CoordinatesUnavailable
  | SearchFailed ustring
  | ImageFailed

record app_state =
  place :: ustring
  lang :: lang
  date :: ustring
  scaleKm :: real
  center :: "point option"
  facts :: facts
  snapshotUrl :: "ustring option"
  status :: status

text \<open>The requests that leave the browser, in the order in which they are issued.\<close>

datatype request =
    SearchReq ustring lang
  | PageReq ustring lang
  | SparqlReq ustring lang
  | SnapshotReq ustring

type_synonym run = "app_state \<times> request list"

definition issue :: "request \<Rightarrow> run \<Rightarrow> run" where
  "issue rq r = (fst r, snd r @ [rq])"

definition setStatus :: "status \<Rightarrow> run \<Rightarrow> run" where
  "setStatus st r = ((fst r)\<lparr> status := st \<rparr>, snd r)"

text \<open>
  \<open>rebuildSnapshot\<close> up to \<open>img.src = url\<close>: without a bounding box it returns at once,
  otherwise it builds the request URL, stores it and asks for the image. It is run by the
  effect \<open>useEffect(() => { if (center) rebuildSnapshot(); }, [center, rebuildSnapshot])\<close>,
  whose dependencies change exactly when \<open>setCenter\<close> or \<open>setFacts\<close> is called during
  \<open>onGenerate\<close> (each call stores a new object).
\<close>

definition rebuildSnapshot :: "platform \<Rightarrow> run \<Rightarrow> run" where
  "rebuildSnapshot p r =
     (case bbox p (center (fst r)) (scaleKm (fst r)) of
        None \<Rightarrow> r
      | Some b \<Rightarrow>
          (let url = buildWvsUrl p b (date (fst r)) (Some 1600) (Some 900) None None
           in issue (SnapshotReq url) ((fst r)\<lparr> snapshotUrl := Some url \<rparr>, snd r)))"

definition centerEffect :: "platform \<Rightarrow> run \<Rightarrow> run" where
  "centerEffect p r = (if center (fst r) \<noteq> None then rebuildSnapshot p r else r)"

definition setFacts :: "platform \<Rightarrow> facts \<Rightarrow> run \<Rightarrow> run" where
  "setFacts p f r = centerEffect p ((fst r)\<lparr> facts := f \<rparr>, snd r)"

text \<open>
  One guarded retry of the search chain,
  \<open>if (!title && guard) { title = await wikiSearchTitle(q, l); }\<close>,
  applied to the run so far and the title so far; an exception thrown earlier passes through.
\<close>

definition searchStage ::
  "platform \<Rightarrow> world \<Rightarrow> bool \<Rightarrow> jsval \<Rightarrow> lang \<Rightarrow> run \<times> ustring option result \<Rightarrow>
   run \<times> ustring option result" where
  "searchStage p w guard q l st =
     (case st of
        (r, Inl e) \<Rightarrow> (r, Inl e)
      | (r, Inr title) \<Rightarrow>
          if \<not> truthy_str title \<and> guard
          then (issue (SearchReq (toStr p q) l) r, wikiSearchTerm p w q l)
          else (r, Inr title))"

text \<open>Lines 312 to 338 of \<open>onGenerate\<close>: the first search and the three guarded retries.\<close>

definition resolveTitle ::
  "platform \<Rightarrow> world \<Rightarrow> ustring \<Rightarrow> lang \<Rightarrow> run \<Rightarrow> run \<times> ustring option result" where
  "resolveTitle p w pl l r =
     (let searchTerm = getSearchTerm pl l;
          altLang = (if l = Ja then En else Ja)
      in searchStage p w True (Str pl) altLang
           (searchStage p w (l \<noteq> En) searchTerm En
              (searchStage p w (searchTerm \<noteq> Str pl) (Str pl) l
                 (issue (SearchReq (toStr p searchTerm) l) r, wikiSearchTerm p w searchTerm l))))"

text \<open>
  \<^verbatim>\<open>
  setCenter({ lat: c.lat, lon: c.lon });
  if (c.qid) {
    setStatus(...);
    setFacts(await wikidataFacts(c.qid, lang));
  }
  \<close>
  The effect that follows \<open>setCenter\<close> runs when the handler next yields: at the \<open>await\<close>,
  after the SPARQL request has been sent, or at the end of the handler. The result is
  \<open>Inl\<close> when \<open>wikidataFacts\<close> throws.
\<close>

definition applyCoords ::
  "platform \<Rightarrow> world \<Rightarrow> coordq \<Rightarrow> lang \<Rightarrow> run \<Rightarrow> run \<times> unit result" where
  "applyCoords p w c l r =
     (let r1 = ((fst r)\<lparr> center := Some \<lparr> lat = lat c, lon = lon c \<rparr> \<rparr>, snd r)
      in case qid c of
           None \<Rightarrow> (centerEffect p r1, Inr ())
         | Some q \<Rightarrow>
             if q = [] then (centerEffect p r1, Inr ())
             else
               (let r2 = centerEffect p (issue (SparqlReq q l) (setStatus GettingDetails r1))
                in case wikidataFacts p w q l of
                     Inl e \<Rightarrow> (r2, Inl e)
                   | Inr f \<Rightarrow> (setFacts p f r2, Inr ())))"

text \<open>The end of the \<open>try\<close> block, \<open>setStatus("")\<close>, or the \<open>catch\<close> block.\<close>

definition finish :: "run \<times> unit result \<Rightarrow> run" where
  "finish st =
     (case st of
        (r, Inl e) \<Rightarrow> setStatus (SearchFailed e) r
      | (r, Inr _) \<Rightarrow> setStatus Clear r)"

text \<open>Lines 345 to 375 of \<open>onGenerate\<close>, for a title that was found.\<close>

definition resolveCoords :: "platform \<Rightarrow> world \<Rightarrow> ustring \<Rightarrow> lang \<Rightarrow> run \<Rightarrow> run" where
  "resolveCoords p w title l r =
     (let r1 = issue (PageReq title l) (setStatus GettingCoordinates r)
      in case wikiTitleToCoordAndQid w title l of
           Inl e \<Rightarrow> setStatus (SearchFailed e) r1
         | Inr coordQ \<Rightarrow>
             if coordQ = None \<and> l \<noteq> En then
               (let r2 = issue (PageReq title En) r1
                in case wikiTitleToCoordAndQid w title En of
                     Inl e \<Rightarrow> setStatus (SearchFailed e) r2
                   | Inr None \<Rightarrow> setStatus CoordinatesUnavailable r2
                   | Inr (Some cEn) \<Rightarrow> finish (applyCoords p w cEn l r2))
             else
               (case coordQ of
                  Some c \<Rightarrow> finish (applyCoords p w c l r1)
                | None \<Rightarrow> setStatus CoordinatesUnavailable r1))"

text \<open>\<open>onGenerate\<close>: the final state and the requests issued, in order.\<close>

definition onGenerate :: "platform \<Rightarrow> world \<Rightarrow> app_state \<Rightarrow> run" where
  "onGenerate p w s =
     (case resolveTitle p w (place s) (lang s) (setStatus Searching (s, [])) of
        (r, Inl e) \<Rightarrow> setStatus (SearchFailed e) r
      | (r, Inr None) \<Rightarrow> setStatus PageNotFound r
      | (r, Inr (Some title)) \<Rightarrow>
          if title = [] then setStatus PageNotFound r
          else resolveCoords p w title (lang s) r)"

subsection \<open>PostcardCompositor: the chips; \<open>downloadPng\<close>\<close>

text \<open>\<open>formatNumber\<close>; a template literal prints \<open>undefined\<close> as the word.\<close>

definition formatNumber :: "platform \<Rightarrow> jsnum option \<Rightarrow> ustring option" where
  "formatNumber p n =
     (case n of
        None \<Rightarrow> None
      | Some NaN \<Rightarrow> None
      | Some (Num r) \<Rightarrow> Some (formatJa p (Num r)))"

definition interpolate :: "ustring option \<Rightarrow> ustring" where
  "interpolate x = or_default x (ascii ''undefined'')"

text \<open>The chip labels of the source (the words for population, persons and elevation).\<close>

definition jinko :: ustring where "jinko = [0x4eba, 0x53e3, 0x20]"
definition nin :: ustring where "nin = [0x4eba]"
definition hyoko :: ustring where "hyoko = [0x6a19, 0x9ad8, 0x20]"

definition populationChip :: "platform \<Rightarrow> jsnum option \<Rightarrow> ustring" where
  "populationChip p n = jinko @ interpolate (formatNumber p n) @ nin"

definition elevationChip :: "platform \<Rightarrow> jsnum \<Rightarrow> ustring" where
  "elevationChip p e = hyoko @ jsnumToString p e @ ascii ''m''"

text \<open>
  \<^verbatim>\<open>
  const chips: string[] = [];
  if (facts.population) chips.push(...);
  if (facts.elev != null) chips.push(...);
  chips.push(new Date(date).toLocaleDateString("ja-JP"));
  \<close>
\<close>

definition chips :: "platform \<Rightarrow> facts \<Rightarrow> ustring \<Rightarrow> ustring list" where
  "chips p f d =
     (if truthy_num (population f) then [populationChip p (population f)] else []) @
     (case elev f of Some e \<Rightarrow> [elevationChip p e] | None \<Rightarrow> []) @
     [dateJa p d]"

text \<open>\<open>a || b\<close> where \<open>b\<close> is a string.\<close>

definition or_else :: "ustring option \<Rightarrow> ustring \<Rightarrow> ustring" where
  "or_else a b = (case a of None \<Rightarrow> b | Some s \<Rightarrow> if s \<noteq> [] then s else b)"

text \<open>The character class \<open>[^\p{L}\p{N}_-]\<close> and \<open>s.replace(/[^\p{L}\p{N}_-]+/gu, "_")\<close>:
  scanning from the left, each maximal run of characters of the class becomes one underscore.\<close>

definition unsafe :: "platform \<Rightarrow> nat \<Rightarrow> bool" where
  "unsafe p c = (\<not> (isLetter p c \<or> isNumber p c \<or> c = 0x5f \<or> c = 0x2d))"

function replaceRuns :: "(nat \<Rightarrow> bool) \<Rightarrow> ustring \<Rightarrow> ustring" where
  "replaceRuns bad [] = []"
| "replaceRuns bad (c # cs) =
     (if bad c then 0x5f # replaceRuns bad (dropWhile bad cs)
      else c # replaceRuns bad cs)"
  by pat_completeness auto
termination
  by (relation "measure (\<lambda>(bad, s). length s)")
     (auto simp: length_dropWhile_le less_Suc_eq_le)

text \<open>
  \<^verbatim>\<open>
  const canvas = canvasRef.current;
  if (!canvas) return;
  ...
  const safeTitle = (facts.label || place || "postcard").replace(/[^\p{L}\p{N}_-]+/gu, "_");
  a.download = `${safeTitle}_${date}.png`;
  \<close>
  The result is the name of the download, or \<open>None\<close> when there is no canvas.
\<close>

definition safeTitle :: "platform \<Rightarrow> app_state \<Rightarrow> ustring" where
  "safeTitle p s =
     replaceRuns (unsafe p)
       (or_else (Some (or_else (label (facts s)) (place s))) (ascii ''postcard''))"

definition downloadPng :: "platform \<Rightarrow> bool \<Rightarrow> app_state \<Rightarrow> ustring option" where
  "downloadPng p canvas s =
     (if \<not> canvas then None
      else Some (safeTitle p s @ ascii ''_'' @ date s @ ascii ''.png''))"

subsection \<open>A platform and remote services for the concrete examples\<close>

text \<open>
  \<open>ascii_platform\<close> follows the browser on the inputs that the examples use: lower-casing and
  the letter and number classes on ASCII text, decimal printing and parsing of natural
  numbers, grouping of thousands, ISO dates printed as \<open>Y/M/D\<close>, form encoding of ASCII
  text, correctly rounded arithmetic, and the printing of functions as V8 does it.
\<close>

definition asciiLower :: "ustring \<Rightarrow> ustring" where
  "asciiLower s = map (\<lambda>c. if 0x41 \<le> c \<and> c \<le> 0x5a then c + 0x20 else c) s"

definition asciiLetter :: "nat \<Rightarrow> bool" where
  "asciiLetter c = ((0x41 \<le> c \<and> c \<le> 0x5a) \<or> (0x61 \<le> c \<and> c \<le> 0x7a))"

definition asciiDigit :: "nat \<Rightarrow> bool" where
  "asciiDigit c = (0x30 \<le> c \<and> c \<le> 0x39)"

fun decimal :: "nat \<Rightarrow> ustring" where
  "decimal n = (if n < 10 then [0x30 + n] else decimal (n div 10) @ [0x30 + n mod 10])"

definition printNumber :: "real \<Rightarrow> ustring" where
  "printNumber r = (if r < 0 then ascii ''-'' else []) @ decimal (nat \<lfloor>\<bar>r\<bar>\<rfloor>)"

definition readNumber :: "ustring \<Rightarrow> jsnum" where
  "readNumber s =
     (if s \<noteq> [] \<and> list_all asciiDigit s
      then Num (real (foldl (\<lambda>n c. 10 * n + (c - 0x30)) 0 s))
      else NaN)"

fun group3 :: "ustring \<Rightarrow> ustring" where
  "group3 (a # b # c # d # ds) = a # b # c # 0x2c # group3 (d # ds)"
| "group3 ds = ds"

fun printGrouped :: "jsnum \<Rightarrow> ustring" where
  "printGrouped (Num r) =
     (if r < 0 then ascii ''-'' else []) @ rev (group3 (rev (decimal (nat \<lfloor>\<bar>r\<bar>\<rfloor>))))"
| "printGrouped NaN = ascii ''NaN''"

definition printDate :: "ustring \<Rightarrow> ustring" where
  "printDate s =
     (if length s = 10 \<and> s ! 4 = 0x2d \<and> s ! 7 = 0x2d
      then take 4 s @ ascii ''/'' @ dropWhile (\<lambda>c. c = 0x30) (take 2 (drop 5 s)) @
           ascii ''/'' @ dropWhile (\<lambda>c. c = 0x30) (drop 8 s)
      else ascii ''Invalid Date'')"

definition hexDigit :: "nat \<Rightarrow> nat" where
  "hexDigit n = (if n < 10 then 0x30 + n else 0x37 + n)"

definition formEncodeChar :: "nat \<Rightarrow> ustring" where
  "formEncodeChar c =
     (if asciiLetter c \<or> asciiDigit c \<or> c \<in> {0x2a, 0x2d, 0x2e, 0x5f} then [c]
      else if c = 0x20 then [0x2b]
      else [0x25, hexDigit (c div 16), hexDigit (c mod 16)])"

definition formEncode :: "(ustring \<times> ustring) list \<Rightarrow> ustring" where
  "formEncode ps =
     join (ascii ''&'')
       (map (\<lambda>(k, v). concat (map formEncodeChar k) @ ascii ''='' @ concat (map formEncodeChar v)) ps)"

text \<open>Rounding to the nearest double, ties to even, for values within the range of the
  finite doubles; \<open>Math.cos\<close> is taken as the nearest double to the cosine.\<close>

definition round64 :: "real \<Rightarrow> real" where
  "round64 x =
     (if x = 0 then 0
      else
        (let e = max \<lfloor>log 2 \<bar>x\<bar>\<rfloor> (- 1022);
             u = 2 powr real_of_int (e - 52);
             q = x / u;
             n = \<lfloor>q\<rfloor>
         in u * of_int (if q - of_int n < 1 / 2 \<or> (q - of_int n = 1 / 2 \<and> even n)
                        then n else n + 1)))"

definition printInherited :: "ustring \<Rightarrow> ustring" where
  "printInherited n =
     (if n = ascii ''__proto__'' then ascii ''[object Object]''
      else ascii ''function '' @ (if n = ascii ''constructor'' then ascii ''Object'' else n) @
           ascii ''() { [native code] }'')"

definition ascii_platform :: platform where
  "ascii_platform =
     \<lparr> toLowerCase = asciiLower, numToString = printNumber, parseNumber = readNumber,
       formatJa = printGrouped, dateJa = printDate, isLetter = asciiLetter,
       isNumber = asciiDigit, urlencode = formEncode,
       add64 = (\<lambda>x y. round64 (x + y)), sub64 = (\<lambda>x y. round64 (x - y)),
       mul64 = (\<lambda>x y. round64 (x * y)), div64 = (\<lambda>x y. round64 (x / y)),
       cos64 = (\<lambda>x. round64 (cos x)), double = round64,
       inheritedToString = printInherited,
       notAFunction = ascii ''q.toLowerCase is not a function'' \<rparr>"

text \<open>Remote services that answer every search with the same ranked titles and every page
  and fact lookup with the same page and binding.\<close>

definition constant_world :: "ustring list \<Rightarrow> page \<Rightarrow> binding option \<Rightarrow> world" where
  "constant_world titles pg b =
     \<lparr> search = (\<lambda>l q. Inr titles), pages = (\<lambda>l t. Inr pg), sparql = (\<lambda>q l. Inr b) \<rparr>"

definition no_page :: page where
  "no_page = \<lparr> coordinates = None, wikibase_item = None \<rparr>"

definition idle_state :: "ustring \<Rightarrow> lang \<Rightarrow> app_state" where
  "idle_state pl l =
     \<lparr> place = pl, lang = l, date = ascii ''2024-01-15'', scaleKm = 120, center = None,
       facts = no_facts, snapshotUrl = None, status = Clear \<rparr>"

definition tokyo_facts :: facts where
  "tokyo_facts =
     \<lparr> label = Some (ascii ''Tokyo''), country = Some (ascii ''Japan''),
       population = Some (Num 37000000), elev = Some (Num 40) \<rparr>"

definition osaka :: ustring where
  "osaka = [0x5927, 0x962a]"

fun is_snapshot :: "request \<Rightarrow> bool" where
  "is_snapshot (SnapshotReq u) = True"
| "is_snapshot rq = False"

text \<open>Exact arithmetic: every operation on doubles is the operation on the real numbers
  and every literal denotes itself. No browser is such a platform.\<close>

definition exact_arithmetic :: "platform \<Rightarrow> bool" where
  "exact_arithmetic p \<longleftrightarrow>
     add64 p = (+) \<and> sub64 p = (-) \<and> mul64 p = (*) \<and> div64 p = (/) \<and>
     cos64 p = cos \<and> double p = (\<lambda>x. x)"

subsection \<open>The wording of the specification, for comparison\<close>


text \<open>The chips as the specification lists them: a population chip if the population is
  present, an elevation chip if the elevation is present, then the date chip.\<close>

definition spec_chips :: "platform \<Rightarrow> facts \<Rightarrow> ustring \<Rightarrow> ustring list" where
  "spec_chips p f d =
     (case population f of Some n \<Rightarrow> [populationChip p (Some n)] | None \<Rightarrow> []) @
     (case elev f of Some e \<Rightarrow> [elevationChip p e] | None \<Rightarrow> []) @
     [dateJa p d]"

text \<open>The download name as the claim words it: the label if present, else the query text
  if non-empty, else \<open>postcard\<close>.\<close>

definition spec_title :: "app_state \<Rightarrow> ustring" where
  "spec_title s =
     (case label (facts s) of
        Some l \<Rightarrow> l
      | None \<Rightarrow> if place s \<noteq> [] then place s else ascii ''postcard'')"

definition spec_download_name :: "platform \<Rightarrow> app_state \<Rightarrow> ustring" where
  "spec_download_name p s =
     replaceRuns (unsafe p) (spec_title s) @ ascii ''_'' @ date s @ ascii ''.png''"

section \<open>Properties\<close>

subsection \<open>Geometry in exact arithmetic\<close>

text \<open>
  The bounding box is computed in doubles, whose operations are parameters of the model, so
  nothing below speaks about the numbers a browser computes. The lemmas of this subsection
  are about the formulas only: they hold for a platform whose arithmetic is exact, which the
  arithmetic of doubles is not.
\<close>

lemma deg_scale:
  fixes a b :: real
  assumes "a < b"
  shows "(a * pi) / 180 < (b * pi) / 180"
proof -
  have "a * pi < b * pi"
    using assms pi_gt_zero by (rule mult_strict_right_mono)
  then show ?thesis by (simp add: divide_strict_right_mono)
qed

lemma cos_deg_abs:
  fixes l :: real
  shows "cos ((\<bar>l\<bar> * pi) / 180) = cos ((l * pi) / 180)"
proof -
  have "(\<bar>l\<bar> * pi) / 180 = \<bar>(l * pi) / 180\<bar>"
    using pi_ge_zero by (simp add: abs_mult)
  then show ?thesis by (simp only: cos_abs_real)
qed

lemma cos_deg_pos:
  fixes l :: real
  assumes "\<bar>l\<bar> < 90"
  shows "0 < cos ((l * pi) / 180)"
proof -
  have "-90 < l" "l < 90" using assms by (simp_all add: abs_less_iff)
  then have "((-90) * pi) / 180 < (l * pi) / 180" "(l * pi) / 180 < (90 * pi) / 180"
    by (simp_all only: deg_scale)
  then have "- (pi / 2) < (l * pi) / 180" "(l * pi) / 180 < pi / 2"
    by simp_all
  then show ?thesis by (rule cos_gt_zero_pi)
qed

lemma cos_deg_strict_anti:
  fixes l1 l2 :: real
  assumes "\<bar>l1\<bar> < \<bar>l2\<bar>" and "\<bar>l2\<bar> \<le> 180"
  shows "cos ((l2 * pi) / 180) < cos ((l1 * pi) / 180)"
proof -
  have "0 \<le> (\<bar>l1\<bar> * pi) / 180" by simp
  moreover have "(\<bar>l1\<bar> * pi) / 180 < (\<bar>l2\<bar> * pi) / 180"
    using assms(1) by (rule deg_scale)
  moreover have "(\<bar>l2\<bar> * pi) / 180 \<le> pi"
  proof -
    have "\<bar>l2\<bar> * pi \<le> 180 * pi"
      using assms(2) pi_ge_zero by (rule mult_right_mono)
    then show ?thesis by simp
  qed
  ultimately have "cos ((\<bar>l2\<bar> * pi) / 180) < cos ((\<bar>l1\<bar> * pi) / 180)"
    by (rule cos_monotone_0_pi)
  then show ?thesis by (simp only: cos_deg_abs)
qed

lemma bbox_is_Some: "\<exists>b. bbox p (Some c) r = Some b"
  by (simp add: bbox_def Let_def)

lemma bbox_exact:
  assumes "exact_arithmetic p"
  shows "bbox p (Some c) r =
     Some \<lparr> south = lat c - (r * (1 / 110.574)) / 2,
            north = lat c + (r * (1 / 110.574)) / 2,
            west = lon c - (r * (1 / (111.320 * cos ((lat c * pi) / 180)))) / 2,
            east = lon c + (r * (1 / (111.320 * cos ((lat c * pi) / 180)))) / 2 \<rparr>"
  using assms by (simp add: exact_arithmetic_def bbox_def degPerKmAtLat_def Let_def)

lemma degLon_pos:
  fixes l :: real
  assumes "\<bar>l\<bar> < 90"
  shows "0 < 1 / (111.320 * cos ((l * pi) / 180))"
proof -
  have "0 < cos ((l * pi) / 180)" using assms by (rule cos_deg_pos)
  then have "0 < 111.320 * cos ((l * pi) / 180)" by simp
  then show ?thesis by simp
qed

text \<open>In exact arithmetic the box is ordered and symmetric about the center, with the
  half-extents of the formulas.\<close>

lemma exact_bbox_ordered_symmetric:
  assumes "exact_arithmetic p" and "- 89 < lat c" and "lat c < 89" and "0 < r"
  shows "\<exists>b. bbox p (Some c) r = Some b \<and>
           south b < north b \<and> west b < east b \<and>
           north b - lat c = lat c - south b \<and>
           east b - lon c = lon c - west b \<and>
           north b - lat c = r / 2 * (1 / 110.574) \<and>
           east b - lon c = r / 2 * (1 / (111.320 * cos (lat c * pi / 180)))"
proof -
  have "\<bar>lat c\<bar> < 90" using assms(2,3) by simp
  then have dpos: "0 < 1 / (111.320 * cos ((lat c * pi) / 180))" by (rule degLon_pos)
  have hlon: "0 < (r * (1 / (111.320 * cos ((lat c * pi) / 180)))) / 2"
    using assms(4) dpos by simp
  have hlat: "0 < (r * (1 / 110.574)) / 2"
    using assms(4) by simp
  show ?thesis
    unfolding bbox_exact [OF assms(1)] using hlon hlat by simp
qed

text \<open>In exact arithmetic the longitude extent grows strictly with the absolute latitude.\<close>

lemma exact_lon_extent_grows:
  assumes "exact_arithmetic p" and "0 < r" and "\<bar>lat c1\<bar> < \<bar>lat c2\<bar>"
    and "- 89 < lat c2" and "lat c2 < 89"
  shows "\<exists>b1 b2. bbox p (Some c1) r = Some b1 \<and> bbox p (Some c2) r = Some b2 \<and>
           east b1 - west b1 < east b2 - west b2"
proof -
  have a2: "\<bar>lat c2\<bar> < 90" "\<bar>lat c2\<bar> \<le> 180" using assms(4,5) by simp_all
  have c2: "0 < cos ((lat c2 * pi) / 180)" using a2(1) by (rule cos_deg_pos)
  have lt: "cos ((lat c2 * pi) / 180) < cos ((lat c1 * pi) / 180)"
    using assms(3) a2(2) by (rule cos_deg_strict_anti)
  have "111.320 * cos ((lat c2 * pi) / 180) < 111.320 * cos ((lat c1 * pi) / 180)"
    using lt by simp
  moreover have "0 < 111.320 * cos ((lat c2 * pi) / 180)" using c2 by simp
  ultimately have "1 / (111.320 * cos ((lat c1 * pi) / 180)) < 1 / (111.320 * cos ((lat c2 * pi) / 180))"
    by (simp add: frac_less2)
  then have "r * (1 / (111.320 * cos ((lat c1 * pi) / 180))) < r * (1 / (111.320 * cos ((lat c2 * pi) / 180)))"
    using assms(2) by (simp only: mult_strict_left_mono)
  then show ?thesis
    unfolding bbox_exact [OF assms(1)] by simp
qed

subsection \<open>The search chain\<close>

lemma ascii_Cons [simp]: "ascii (c # cs) = of_char c # ascii cs"
  by (simp add: ascii_def)

lemma ascii_Nil [simp]: "ascii [] = []"
  by (simp add: ascii_def)

lemma str_includes_sublist: "str_includes s sub = sublist sub s"
  by (induction s) (simp_all add: sublist_Cons_right)

text \<open>The equality test of the \<open>find\<close> predicate is subsumed by the \<open>includes\<close> test: the
  predicate holds exactly for the titles that contain the query, in lower case.\<close>

lemma isMatch_includes: "isMatch p q title = str_includes (toLowerCase p title) (toLowerCase p q)"
  by (auto simp: isMatch_def str_includes_sublist)

lemma or_str_Some: "or_str a (Some b) \<noteq> None"
  by (cases a) (simp_all add: or_str_def)

lemma pickTitle_None_iff: "pickTitle p q results = None \<longleftrightarrow> results = []"
  by (cases results) (simp_all add: pickTitle_def or_str_Some)

lemma pickTitle_first_match:
  assumes "find (isMatch p q) results = Some t" and "t \<noteq> []"
  shows "pickTitle p q results = Some t"
  using assms by (cases results) (simp_all add: pickTitle_def or_str_def)

lemma pickTitle_top_ranked:
  assumes "find (isMatch p q) (r0 # rs) = None"
  shows "pickTitle p q (r0 # rs) = Some r0"
  using assms by (simp add: pickTitle_def or_str_def)

lemma wikiSearchTitle_no_results:
  assumes "search w l q = Inr []"
  shows "wikiSearchTitle p w q l = Inr None"
  using assms by (simp add: wikiSearchTitle_def pickTitle_def)

lemma placeNameDict_value_nonempty:
  assumes "placeNameDict pl = Some t"
  shows "t \<noteq> []"
proof -
  have "(pl, t) \<in> set placeNameEntries"
    using assms unfolding placeNameDict_def by (rule map_of_SomeD)
  then have "t \<in> snd ` set placeNameEntries"
    by force
  then show ?thesis
    by (auto simp: placeNameEntries_def)
qed

lemma getProperty_own:
  assumes "obj k = Some v"
  shows "getProperty obj k = Some (Str v)"
  using assms by (simp add: getProperty_def)


lemma getProperty_inherited:
  assumes "obj k = None" and "k \<in> set objectPrototypeNames"
  shows "getProperty obj k = Some (Inherited k)"
  using assms by (simp add: getProperty_def)

lemma getSearchTerm_absent:
  assumes "getProperty placeNameDict pl = None"
  shows "getSearchTerm pl l = Str pl"
  using assms by (simp add: getSearchTerm_def)

lemma getSearchTerm_present:
  assumes "placeNameDict pl = Some t"
  shows "getSearchTerm pl l = Str (if l = Ja then t else pl)"
  using getProperty_own [of placeNameDict pl t] assms placeNameDict_value_nonempty [OF assms]
  by (simp add: getSearchTerm_def)

lemma getSearchTerm_inherited:
  assumes "placeNameDict pl = None" and "pl \<in> set objectPrototypeNames"
  shows "getSearchTerm pl l = (if l = Ja then Inherited pl else Str pl)"
  using getProperty_inherited [of placeNameDict pl] assms by (simp add: getSearchTerm_def)

lemma wikiSearchTerm_Str [simp]: "wikiSearchTerm p w (Str q) l = wikiSearchTitle p w q l"
  by (simp add: wikiSearchTerm_def)

lemma wikiSearchTerm_no_results:
  assumes "search w l (toStr p v) = Inr []"
  shows "wikiSearchTerm p w v l = Inr None"
  using assms by (cases v) (simp_all add: wikiSearchTerm_def wikiSearchTitle_no_results)

lemma snd_setStatus [simp]: "snd (setStatus st r) = snd r"
  by (simp add: setStatus_def)

lemma fst_setStatus [simp]: "fst (setStatus st r) = (fst r)\<lparr> status := st \<rparr>"
  by (simp add: setStatus_def)

lemma snd_issue [simp]: "snd (issue rq r) = snd r @ [rq]"
  by (simp add: issue_def)

lemma fst_issue [simp]: "fst (issue rq r) = fst r"
  by (simp add: issue_def)

lemma searchStage_extends: "prefix (snd (fst st)) (snd (fst (searchStage p w g q l st)))"
  by (cases st) (auto simp: searchStage_def split: sum.splits)

lemma searchStage_state: "fst (fst (searchStage p w g q l st)) = fst (fst st)"
  by (cases st) (auto simp: searchStage_def split: sum.splits)

lemma searchStage_no_snapshot:
  assumes "list_all (\<lambda>rq. \<not> is_snapshot rq) (snd (fst st))"
  shows "list_all (\<lambda>rq. \<not> is_snapshot rq) (snd (fst (searchStage p w g q l st)))"
  using assms by (cases st) (auto simp: searchStage_def split: sum.splits)

lemma resolveTitle_first_request:
  "prefix (snd r @ [SearchReq (toStr p (getSearchTerm pl l)) l])
     (snd (fst (resolveTitle p w pl l r)))"
proof -
  let ?s0 = "(issue (SearchReq (toStr p (getSearchTerm pl l)) l) r,
              wikiSearchTerm p w (getSearchTerm pl l) l)"
  let ?s1 = "searchStage p w (getSearchTerm pl l \<noteq> Str pl) (Str pl) l ?s0"
  let ?s2 = "searchStage p w (l \<noteq> En) (getSearchTerm pl l) En ?s1"
  let ?s3 = "searchStage p w True (Str pl) (if l = Ja then En else Ja) ?s2"
  have "prefix (snd (fst ?s0)) (snd (fst ?s1))" by (rule searchStage_extends)
  also have "prefix (snd (fst ?s1)) (snd (fst ?s2))" by (rule searchStage_extends)
  also have "prefix (snd (fst ?s2)) (snd (fst ?s3))" by (rule searchStage_extends)
  finally show ?thesis by (simp add: resolveTitle_def Let_def)
qed

text \<open>The chain stops at the first search that yields a title.\<close>

lemma resolveTitle_short_circuit:
  assumes "wikiSearchTerm p w (getSearchTerm pl l) l = Inr (Some t)" and "t \<noteq> []"
  shows "resolveTitle p w pl l r =
           (issue (SearchReq (toStr p (getSearchTerm pl l)) l) r, Inr (Some t))"
  using assms by (simp add: resolveTitle_def Let_def searchStage_def)

lemma resolveTitle_state: "fst (fst (resolveTitle p w pl l r)) = fst r"
  by (simp add: resolveTitle_def Let_def searchStage_state)

lemma resolveTitle_no_snapshot:
  assumes "list_all (\<lambda>rq. \<not> is_snapshot rq) (snd r)"
  shows "list_all (\<lambda>rq. \<not> is_snapshot rq) (snd (fst (resolveTitle p w pl l r)))"
  using assms by (simp add: resolveTitle_def Let_def searchStage_no_snapshot)

lemma rebuildSnapshot_extends: "prefix (snd r) (snd (rebuildSnapshot p r))"
  by (simp add: rebuildSnapshot_def Let_def split: option.splits)

lemma centerEffect_extends: "prefix (snd r) (snd (centerEffect p r))"
  by (simp add: centerEffect_def rebuildSnapshot_extends)

lemma setFacts_extends: "prefix (snd r) (snd (setFacts p f r))"
  using centerEffect_extends [of "((fst r)\<lparr> facts := f \<rparr>, snd r)" p]
  by (simp add: setFacts_def)

lemma applyCoords_extends: "prefix (snd r) (snd (fst (applyCoords p w c l r)))"
proof -
  let ?r1 = "((fst r)\<lparr> center := Some \<lparr> lat = lat c, lon = lon c \<rparr> \<rparr>, snd r)"
  have a: "prefix (snd r) (snd (centerEffect p ?r1))"
    using centerEffect_extends [of ?r1 p] by simp
  have b: "prefix (snd r) (snd (centerEffect p (issue (SparqlReq q l) (setStatus GettingDetails ?r1))))" for q
    using centerEffect_extends [of "issue (SparqlReq q l) (setStatus GettingDetails ?r1)" p]
    by (auto elim: prefix_order.trans [rotated])
  have c: "prefix (snd r) (snd (setFacts p f (centerEffect p (issue (SparqlReq q l) (setStatus GettingDetails ?r1)))))" for q f
    using b [of q] setFacts_extends by (rule prefix_order.trans)
  show ?thesis
    using a b c by (simp add: applyCoords_def Let_def split: option.splits sum.splits)
qed

lemma finish_extends: "prefix (snd (fst st)) (snd (finish st))"
  by (cases st) (simp add: finish_def split: sum.splits)

lemma finish_applyCoords_extends:
  assumes "prefix xs (snd r)"
  shows "prefix xs (snd (finish (applyCoords p w c l r)))"
proof -
  note assms
  also have "prefix (snd r) (snd (fst (applyCoords p w c l r)))" by (rule applyCoords_extends)
  also have "prefix (snd (fst (applyCoords p w c l r))) (snd (finish (applyCoords p w c l r)))"
    by (rule finish_extends)
  finally show ?thesis .
qed

lemma resolveCoords_extends: "prefix (snd r) (snd (resolveCoords p w t l r))"
  by (auto simp: resolveCoords_def Let_def split: sum.splits option.splits
        intro!: finish_applyCoords_extends)

lemma onGenerate_first_request:
  "\<exists>rest. snd (onGenerate p w s) =
     SearchReq (toStr p (getSearchTerm (place s) (lang s))) (lang s) # rest"
proof -
  obtain r x where rt: "resolveTitle p w (place s) (lang s) (setStatus Searching (s, [])) = (r, x)"
    by (cases "resolveTitle p w (place s) (lang s) (setStatus Searching (s, []))")
  have first: "prefix [SearchReq (toStr p (getSearchTerm (place s) (lang s))) (lang s)] (snd r)"
    using resolveTitle_first_request [of "setStatus Searching (s, [])" p "place s" "lang s" w] rt
    by simp
  have "prefix (snd r) (snd (onGenerate p w s))"
    using rt resolveCoords_extends
    by (auto simp: onGenerate_def split: sum.splits option.splits)
  with first have "prefix [SearchReq (toStr p (getSearchTerm (place s) (lang s))) (lang s)]
      (snd (onGenerate p w s))"
    by (rule prefix_order.trans)
  then show ?thesis by (auto simp: prefix_def)
qed

text \<open>When no search finds anything, the run ends with the page-not-found status after
  the first search and every retry whose guard holds.\<close>

lemma onGenerate_nothing_found:
  assumes "\<forall>l q. search w l q = Inr []"
  shows "onGenerate p w s =
           (s\<lparr> status := PageNotFound \<rparr>,
            SearchReq (toStr p (getSearchTerm (place s) (lang s))) (lang s) #
            (if getSearchTerm (place s) (lang s) \<noteq> Str (place s)
             then [SearchReq (place s) (lang s)] else []) @
            (if lang s \<noteq> En
             then [SearchReq (toStr p (getSearchTerm (place s) (lang s))) En] else []) @
            [SearchReq (place s) (if lang s = Ja then En else Ja)])"
proof -
  have none: "wikiSearchTerm p w v l = Inr None" for v l
    using assms by (simp add: wikiSearchTerm_no_results)
  have none': "wikiSearchTitle p w q l = Inr None" for q l
    using assms by (simp add: wikiSearchTitle_no_results)
  show ?thesis
    by (cases "lang s")
       (simp_all add: onGenerate_def resolveTitle_def Let_def searchStage_def none none'
          setStatus_def issue_def)
qed



text \<open>
  A text that names a member of \<open>Object.prototype\<close> is found by the lookup although it is
  not in the dictionary: for \<open>constructor\<close> in \<open>ja\<close> the search term is the function
  \<open>Object\<close>, and four searches are made, the first and the third for the text of that
  function.
\<close>

lemma inherited_name_searches:
  "onGenerate ascii_platform (constant_world [] no_page None)
     (idle_state (ascii ''constructor'') Ja) =
   ((idle_state (ascii ''constructor'') Ja)\<lparr> status := PageNotFound \<rparr>,
    [SearchReq (ascii ''function Object() { [native code] }'') Ja,
     SearchReq (ascii ''constructor'') Ja,
     SearchReq (ascii ''function Object() { [native code] }'') En,
     SearchReq (ascii ''constructor'') En])"
proof -
  have e: "\<forall>l q. search (constant_world [] no_page None) l q = Inr []"
    by (simp add: constant_world_def)
  have d: "placeNameDict (ascii ''constructor'') = None"
    by (simp add: placeNameDict_def placeNameEntries_def)
  have n: "ascii ''constructor'' \<in> set objectPrototypeNames"
    by (simp add: objectPrototypeNames_def)
  have t: "getSearchTerm (ascii ''constructor'') Ja = Inherited (ascii ''constructor'')"
    using getSearchTerm_inherited [OF d n, of Ja] by simp
  have s: "toStr ascii_platform (Inherited (ascii ''constructor'')) =
      ascii ''function Object() { [native code] }''"
    by (simp add: ascii_platform_def printInherited_def)
  have pl: "place (idle_state (ascii ''constructor'') Ja) = ascii ''constructor''"
    "lang (idle_state (ascii ''constructor'') Ja) = Ja"
    by (simp_all add: idle_state_def)
  show ?thesis
    unfolding onGenerate_nothing_found [OF e] pl t s by simp
qed

text \<open>
  Claim C2, at the failing input. For the query \<open>tokyo\<close> and the ranked titles
  \<open>Tokyo Tower\<close>, \<open>Tokyo\<close>, the search call returns \<open>Tokyo Tower\<close>, the first title that
  contains the query, although the second title is a case-insensitive exact match and the
  first is not.
\<close>

theorem containing_title_beats_exact_match:
  "wikiSearchTitle ascii_platform
     (constant_world [ascii ''Tokyo Tower'', ascii ''Tokyo''] no_page None)
     (ascii ''tokyo'') En = Inr (Some (ascii ''Tokyo Tower'')) \<and>
   toLowerCase ascii_platform (ascii ''Tokyo'') = toLowerCase ascii_platform (ascii ''tokyo'') \<and>
   toLowerCase ascii_platform (ascii ''Tokyo Tower'') \<noteq> toLowerCase ascii_platform (ascii ''tokyo'')"
  by (simp add: wikiSearchTitle_def constant_world_def pickTitle_def isMatch_def or_str_def
        ascii_platform_def asciiLower_def)

text \<open>
  Claim C3, as amended. For a query whose text has an entry in the dictionary, the first
  search uses the translated term when the requested language is \<open>ja\<close> and the text as
  typed when it is \<open>en\<close>, in the requested language in both cases.
\<close>

theorem first_search_uses_translation_for_ja:
  assumes "placeNameDict (place s) = Some t"
  shows "\<exists>rest. snd (onGenerate p w s) =
           SearchReq (if lang s = Ja then t else place s) (lang s) # rest"
  using onGenerate_first_request [of p w s] getSearchTerm_present [OF assms, of "lang s"]
  by simp

theorem first_search_uses_translation_for_ja_witness:
  "placeNameDict osaka = Some (ascii ''Osaka'') \<and>
   (\<exists>rest. snd (onGenerate ascii_platform (constant_world [] no_page None) (idle_state osaka Ja)) =
      SearchReq (ascii ''Osaka'') Ja # rest)"
proof -
  have d: "placeNameDict (place (idle_state osaka Ja)) = Some (ascii ''Osaka'')"
    by (simp add: idle_state_def osaka_def placeNameDict_def placeNameEntries_def)
  show ?thesis
    using first_search_uses_translation_for_ja [OF d, of ascii_platform "constant_world [] no_page None"] d
    by (simp add: idle_state_def del: ascii_Cons)
qed

text \<open>For the dictionary key of Osaka requested in \<open>en\<close>, the first search uses the key
  itself, not its translation.\<close>

theorem first_search_en_counterexample:
  "placeNameDict osaka = Some (ascii ''Osaka'') \<and>
   getSearchTerm osaka En = Str osaka \<and>
   hd (snd (onGenerate ascii_platform (constant_world [] no_page None) (idle_state osaka En))) =
     SearchReq osaka En \<and>
   hd (snd (onGenerate ascii_platform (constant_world [] no_page None) (idle_state osaka En))) \<noteq>
     SearchReq (ascii ''Osaka'') En"
proof -
  have d: "placeNameDict osaka = Some (ascii ''Osaka'')"
    by (simp add: osaka_def placeNameDict_def placeNameEntries_def)
  have t: "getSearchTerm osaka En = Str osaka"
    by (simp add: getSearchTerm_def)
  obtain rest where r: "snd (onGenerate ascii_platform (constant_world [] no_page None) (idle_state osaka En)) =
      SearchReq osaka En # rest"
    using onGenerate_first_request [of ascii_platform "constant_world [] no_page None" "idle_state osaka En"] t
    by (auto simp: idle_state_def)
  have ne: "osaka \<noteq> ascii ''Osaka''"
    by (simp add: osaka_def)
  show ?thesis
    using d t ne by (simp add: r)
qed


subsection \<open>Coordinates and facts\<close>

lemma ascii_eq_Nil [simp]: "ascii s = [] \<longleftrightarrow> s = []"
  by (simp add: ascii_def)

lemma no_coordinates:
  assumes "pages w l t = Inr pg" and "coordinates pg = None"
  shows "wikiTitleToCoordAndQid w t l = Inr None"
  using assms by (simp add: wikiTitleToCoordAndQid_def)

lemma resolveCoords_unavailable:
  assumes "wikiTitleToCoordAndQid w t l = Inr None"
    and "wikiTitleToCoordAndQid w t En = Inr None"
  shows "resolveCoords p w t l r =
           ((fst r)\<lparr> status := CoordinatesUnavailable \<rparr>,
            snd r @ PageReq t l # (if l \<noteq> En then [PageReq t En] else []))"
  using assms by (cases l) (simp_all add: resolveCoords_def Let_def setStatus_def issue_def)

text \<open>
  Claim C4. For a title found by the search chain, the coordinate lookup is made in the
  requested language; when that page carries no coordinates and the requested language is
  not \<open>en\<close>, the lookup of the same title is made once more in \<open>en\<close>; when neither page
  carries coordinates the run ends with the coordinates-unavailable status, the center,
  the facts and the snapshot URL are the ones from before, and no imagery request is among
  the requests issued.
\<close>

theorem coordinates_unavailable_halts:
  assumes "resolveTitle p w (place s) (lang s) (setStatus Searching (s, [])) = (r, Inr (Some t))"
    and "t \<noteq> []"
    and "pages w (lang s) t = Inr pg" and "coordinates pg = None"
    and "pages w En t = Inr pgEn" and "coordinates pgEn = None"
  shows "onGenerate p w s =
           (s\<lparr> status := CoordinatesUnavailable \<rparr>,
            snd r @ PageReq t (lang s) # (if lang s \<noteq> En then [PageReq t En] else [])) \<and>
         center (fst (onGenerate p w s)) = center s \<and>
         facts (fst (onGenerate p w s)) = facts s \<and>
         snapshotUrl (fst (onGenerate p w s)) = snapshotUrl s \<and>
         list_all (\<lambda>rq. \<not> is_snapshot rq) (snd (onGenerate p w s))"
proof -
  have st: "fst r = s\<lparr> status := Searching \<rparr>"
    using resolveTitle_state [of p w "place s" "lang s" "setStatus Searching (s, [])"] assms(1)
    by simp
  have quiet: "list_all (\<lambda>rq. \<not> is_snapshot rq) (snd r)"
    using resolveTitle_no_snapshot [of "setStatus Searching (s, [])" p w "place s" "lang s"] assms(1)
    by simp
  have c1: "wikiTitleToCoordAndQid w t (lang s) = Inr None"
    using assms(3,4) by (rule no_coordinates)
  have c2: "wikiTitleToCoordAndQid w t En = Inr None"
    using assms(5,6) by (rule no_coordinates)
  have run: "onGenerate p w s =
           (s\<lparr> status := CoordinatesUnavailable \<rparr>,
            snd r @ PageReq t (lang s) # (if lang s \<noteq> En then [PageReq t En] else []))"
    using assms(1,2) by (simp add: onGenerate_def resolveCoords_unavailable [OF c1 c2] st)
  show ?thesis
    unfolding run using quiet by simp
qed

theorem coordinates_unavailable_halts_witness:
  "resolveTitle ascii_platform (constant_world [ascii ''Atlantis''] no_page None)
      (ascii ''Atlantis'') Ja (setStatus Searching (idle_state (ascii ''Atlantis'') Ja, [])) =
     (((idle_state (ascii ''Atlantis'') Ja)\<lparr> status := Searching \<rparr>,
       [SearchReq (ascii ''Atlantis'') Ja]), Inr (Some (ascii ''Atlantis''))) \<and>
   ascii ''Atlantis'' \<noteq> [] \<and>
   pages (constant_world [ascii ''Atlantis''] no_page None) Ja (ascii ''Atlantis'') = Inr no_page \<and>
   pages (constant_world [ascii ''Atlantis''] no_page None) En (ascii ''Atlantis'') = Inr no_page \<and>
   coordinates no_page = None \<and>
   onGenerate ascii_platform (constant_world [ascii ''Atlantis''] no_page None)
       (idle_state (ascii ''Atlantis'') Ja) =
     ((idle_state (ascii ''Atlantis'') Ja)\<lparr> status := CoordinatesUnavailable \<rparr>,
      [SearchReq (ascii ''Atlantis'') Ja, PageReq (ascii ''Atlantis'') Ja,
       PageReq (ascii ''Atlantis'') En])"
proof -
  let ?w = "constant_world [ascii ''Atlantis''] no_page None"
  let ?s = "idle_state (ascii ''Atlantis'') Ja"
  have d: "getSearchTerm (ascii ''Atlantis'') Ja = Str (ascii ''Atlantis'')"
    by (rule getSearchTerm_absent)
       (simp add: getProperty_def placeNameDict_def placeNameEntries_def objectPrototypeNames_def)
  have f: "wikiSearchTitle ascii_platform ?w (ascii ''Atlantis'') Ja = Inr (Some (ascii ''Atlantis''))"
    by (simp add: wikiSearchTitle_def constant_world_def pickTitle_def isMatch_def or_str_def)
  have rt: "resolveTitle ascii_platform ?w (place ?s) (lang ?s) (setStatus Searching (?s, [])) =
     ((?s\<lparr> status := Searching \<rparr>, [SearchReq (ascii ''Atlantis'') Ja]),
      Inr (Some (ascii ''Atlantis'')))"
    by (simp add: resolveTitle_def Let_def d f searchStage_def setStatus_def issue_def idle_state_def
          del: ascii_Cons)
  have ne: "ascii ''Atlantis'' \<noteq> []" by simp
  have pj: "pages ?w (lang ?s) (ascii ''Atlantis'') = Inr no_page"
    by (simp add: constant_world_def)
  have pe: "pages ?w En (ascii ''Atlantis'') = Inr no_page"
    by (simp add: constant_world_def)
  have nc: "coordinates no_page = None" by (simp add: no_page_def)
  have l: "lang ?s = Ja" "place ?s = ascii ''Atlantis''" by (simp_all add: idle_state_def)
  show ?thesis
    using coordinates_unavailable_halts [OF rt ne pj nc pe nc] rt pj pe nc
    by (simp add: l del: ascii_Cons)
qed

text \<open>What \<open>applyCoords\<close> does to the facts in each of its three cases.\<close>

lemma facts_rebuildSnapshot [simp]: "facts (fst (rebuildSnapshot p r)) = facts (fst r)"
  by (simp add: rebuildSnapshot_def Let_def issue_def split: option.splits)

lemma facts_centerEffect [simp]: "facts (fst (centerEffect p r)) = facts (fst r)"
  by (simp add: centerEffect_def)

lemma applyCoords_without_qid:
  assumes "\<not> truthy_str (qid c)"
  shows "facts (fst (fst (applyCoords p w c l r))) = facts (fst r)"
  using assms by (cases "qid c") (simp_all add: applyCoords_def Let_def)

lemma applyCoords_facts_thrown:
  assumes "qid c = Some q" and "q \<noteq> []" and "wikidataFacts p w q l = Inl e"
  shows "facts (fst (fst (applyCoords p w c l r))) = facts (fst r) \<and>
         snd (applyCoords p w c l r) = Inl e"
  using assms by (simp add: applyCoords_def Let_def)

lemma applyCoords_facts_replaced:
  assumes "qid c = Some q" and "q \<noteq> []" and "wikidataFacts p w q l = Inr f"
  shows "facts (fst (fst (applyCoords p w c l r))) = f"
  using assms by (simp add: applyCoords_def Let_def setFacts_def)

text \<open>
  Claim C5, at the failing input. The state holds the facts of an earlier query for Tokyo;
  the new query \<open>Null Island\<close> finds a page with coordinates (0, 0) and no Wikidata item.
  The run succeeds (empty status), the center is the new one, and the facts are still those
  of Tokyo, not the empty fact set.
\<close>

theorem stale_facts_without_qid:
  "status (fst (onGenerate ascii_platform
      (constant_world [ascii ''Null Island'']
         \<lparr> coordinates = Some \<lparr> lat = 0, lon = 0 \<rparr>, wikibase_item = None \<rparr> None)
      ((idle_state (ascii ''Null Island'') En)\<lparr> facts := tokyo_facts \<rparr>))) = Clear \<and>
   center (fst (onGenerate ascii_platform
      (constant_world [ascii ''Null Island'']
         \<lparr> coordinates = Some \<lparr> lat = 0, lon = 0 \<rparr>, wikibase_item = None \<rparr> None)
      ((idle_state (ascii ''Null Island'') En)\<lparr> facts := tokyo_facts \<rparr>))) = Some \<lparr> lat = 0, lon = 0 \<rparr> \<and>
   facts (fst (onGenerate ascii_platform
      (constant_world [ascii ''Null Island'']
         \<lparr> coordinates = Some \<lparr> lat = 0, lon = 0 \<rparr>, wikibase_item = None \<rparr> None)
      ((idle_state (ascii ''Null Island'') En)\<lparr> facts := tokyo_facts \<rparr>))) = tokyo_facts \<and>
   tokyo_facts \<noteq> no_facts"
proof -
  let ?pg = "\<lparr> coordinates = Some \<lparr> lat = 0, lon = 0 \<rparr>, wikibase_item = None \<rparr>"
  let ?w = "constant_world [ascii ''Null Island''] ?pg None"
  let ?s = "(idle_state (ascii ''Null Island'') En)\<lparr> facts := tokyo_facts \<rparr>"
  have d: "getSearchTerm (ascii ''Null Island'') En = Str (ascii ''Null Island'')"
    by (simp add: getSearchTerm_def)
  have f: "wikiSearchTitle ascii_platform ?w (ascii ''Null Island'') En = Inr (Some (ascii ''Null Island''))"
    by (simp add: wikiSearchTitle_def constant_world_def pickTitle_def isMatch_def or_str_def)
  have rt: "resolveTitle ascii_platform ?w (ascii ''Null Island'') En (setStatus Searching (?s, [])) =
     ((?s\<lparr> status := Searching \<rparr>, [SearchReq (ascii ''Null Island'') En]),
      Inr (Some (ascii ''Null Island'')))"
    by (simp add: resolveTitle_def Let_def d f searchStage_def setStatus_def issue_def
          del: ascii_Cons)
  have c: "wikiTitleToCoordAndQid ?w (ascii ''Null Island'') En =
             Inr (Some \<lparr> lat = 0, lon = 0, qid = None \<rparr>)"
    by (simp add: wikiTitleToCoordAndQid_def constant_world_def)
  have ne: "tokyo_facts \<noteq> no_facts"
    by (simp add: tokyo_facts_def no_facts_def)
  have l: "lang ?s = En" "place ?s = ascii ''Null Island''" by (simp_all add: idle_state_def)
  have nn: "ascii ''Null Island'' \<noteq> []" by simp
  have run: "onGenerate ascii_platform ?w ?s =
     finish (applyCoords ascii_platform ?w \<lparr> lat = 0, lon = 0, qid = None \<rparr> En
       (issue (PageReq (ascii ''Null Island'') En)
          (setStatus GettingCoordinates
             (?s\<lparr> status := Searching \<rparr>, [SearchReq (ascii ''Null Island'') En]))))"
    using nn by (simp add: onGenerate_def l rt resolveCoords_def c Let_def del: ascii_Cons)
  show ?thesis
    unfolding run using ne
    by (simp add: applyCoords_def Let_def finish_def centerEffect_def rebuildSnapshot_def
          bbox_def issue_def setStatus_def idle_state_def del: ascii_Cons)
qed


subsection \<open>The imagery request\<close>

lemma splitOn_nonempty: "splitOn c s \<noteq> []"
  by (induction s) (simp_all split: list.splits)

lemma splitOn_plain:
  assumes "c \<notin> set x"
  shows "splitOn c x = [x]"
  using assms by (induction x) simp_all

lemma splitOn_append:
  assumes "c \<notin> set x"
  shows "splitOn c (x @ c # rest) = x # splitOn c rest"
  using assms by (induction x) simp_all

text \<open>Joining with commas keeps the layers and their order: splitting the joined string at
  the commas gives the list back, when no layer name contains a comma.\<close>

lemma join_keeps_order:
  assumes "ls \<noteq> []" and "\<forall>x \<in> set ls. c \<notin> set x"
  shows "splitOn c (join [c] ls) = ls"
  using assms
proof (induction "[c]" ls rule: join.induct)
  case 1
  then show ?case by simp
next
  case (2 x)
  then show ?case by (simp add: splitOn_plain)
next
  case (3 x y ys)
  then show ?case by (simp add: splitOn_append)
qed

text \<open>
  Claim C8. For every bounding box, date, width, height, layer list and format, the
  request built by \<open>buildWvsUrl\<close> is the fixed endpoint followed by the encoding of exactly
  eight fields, in this order: the request type, the date, the box as
  \<open>south,west,north,east\<close> joined by commas, the coordinate reference system, the layers
  joined by commas in their order, the format, the width and the height. The default
  layer list has two layers, the true-color composite and then the coastlines, and the
  default format is PNG.
\<close>

theorem wvs_request_descriptor:
  "buildWvsUrl p b d width height layers format =
     ascii ''https://wvs.earthdata.nasa.gov/api/v1/snapshot?'' @
     urlencode p
       [(ascii ''REQUEST'', ascii ''GetSnapshot''),
        (ascii ''TIME'', d),
        (ascii ''BBOX'',
           numToString p (south b) @ ascii '','' @ numToString p (west b) @ ascii '','' @
           numToString p (north b) @ ascii '','' @ numToString p (east b)),
        (ascii ''CRS'', ascii ''EPSG:4326''),
        (ascii ''LAYERS'',
           join (ascii '','')
             (case layers of
                None \<Rightarrow> [ascii ''MODIS_Terra_CorrectedReflectance_TrueColor'', ascii ''Coastlines'']
              | Some ls \<Rightarrow> ls)),
        (ascii ''FORMAT'', case format of None \<Rightarrow> ascii ''image/png'' | Some f \<Rightarrow> f),
        (ascii ''WIDTH'', numToString p (case width of None \<Rightarrow> 1600 | Some x \<Rightarrow> x)),
        (ascii ''HEIGHT'', numToString p (case height of None \<Rightarrow> 900 | Some x \<Rightarrow> x))] \<and>
   length default_layers = 2 \<and>
   join (ascii '','') default_layers =
     ascii ''MODIS_Terra_CorrectedReflectance_TrueColor,Coastlines'' \<and>
   default_format = ascii ''image/png''"
  by (simp add: buildWvsUrl_def wvsParams_def or_default_def default_layers_def
        default_format_def split: option.splits)

text \<open>The request for a one-degree box with the default layers and format, as the browser
  encodes it.\<close>

lemma wvs_request_example:
  "buildWvsUrl ascii_platform \<lparr> south = 35, north = 36, west = 139, east = 140 \<rparr>
     (ascii ''2024-01-15'') (Some 1600) (Some 900) None None =
   ascii (''https://wvs.earthdata.nasa.gov/api/v1/snapshot?REQUEST=GetSnapshot'' @
          ''&TIME=2024-01-15&BBOX=35%2C139%2C36%2C140&CRS=EPSG%3A4326'' @
          ''&LAYERS=MODIS_Terra_CorrectedReflectance_TrueColor%2CCoastlines'' @
          ''&FORMAT=image%2Fpng&WIDTH=1600&HEIGHT=900'')"
  by (simp add: buildWvsUrl_def wvsParams_def or_default_def default_layers_def
        default_format_def ascii_platform_def formEncode_def formEncodeChar_def asciiLetter_def
        asciiDigit_def hexDigit_def printNumber_def)

subsection \<open>The chips\<close>

text \<open>
  Claim C9, as amended. The chips are, from left to right: a population chip if the
  population is present and is neither zero nor \<open>NaN\<close>, an elevation chip if the elevation is
  present, then always the date chip; a chip that is left out leaves no gap. For a
  population of 37000000 and no elevation the chips are the population chip and the date
  chip.
\<close>

theorem chips_in_order:
  "chips p f d =
     (case population f of
        Some (Num r) \<Rightarrow> if r \<noteq> 0 then [jinko @ formatJa p (Num r) @ nin] else []
      | Some NaN \<Rightarrow> []
      | None \<Rightarrow> []) @
     (case elev f of Some e \<Rightarrow> [hyoko @ jsnumToString p e @ ascii ''m''] | None \<Rightarrow> []) @
     [dateJa p d] \<and>
   chips p \<lparr> label = lb, country = co, population = Some (Num 37000000), elev = None \<rparr> d =
     [jinko @ formatJa p (Num 37000000) @ nin, dateJa p d]"
  by (simp add: chips_def populationChip_def elevationChip_def formatNumber_def interpolate_def
        or_default_def split: option.splits jsnum.splits del: ascii_Cons)

text \<open>A population of zero is present and gets no chip.\<close>

theorem zero_population_counterexample:
  "chips ascii_platform
     \<lparr> label = None, country = None, population = Some (Num 0), elev = None \<rparr>
     (ascii ''2024-01-15'') = [ascii ''2024/1/15''] \<and>
   spec_chips ascii_platform
     \<lparr> label = None, country = None, population = Some (Num 0), elev = None \<rparr>
     (ascii ''2024-01-15'') = [jinko @ ascii ''0'' @ nin, ascii ''2024/1/15''] \<and>
   chips ascii_platform
     \<lparr> label = None, country = None, population = Some (Num 0), elev = None \<rparr>
     (ascii ''2024-01-15'') \<noteq>
   spec_chips ascii_platform
     \<lparr> label = None, country = None, population = Some (Num 0), elev = None \<rparr>
     (ascii ''2024-01-15'')"
  by (simp add: chips_def spec_chips_def populationChip_def formatNumber_def interpolate_def
        or_default_def ascii_platform_def printDate_def jinko_def nin_def)

subsection \<open>The download name\<close>

lemma replaceRuns_run:
  assumes "run \<noteq> []" and "list_all bad run" and "rest = [] \<or> \<not> bad (hd rest)"
  shows "replaceRuns bad (run @ rest) = 0x5f # replaceRuns bad rest"
proof -
  obtain c cs where run: "run = c # cs" using assms(1) by (cases run) auto
  have "dropWhile bad (cs @ rest) = rest"
    using assms(2,3) run by (cases rest) (auto simp: list_all_iff dropWhile_append)
  then show ?thesis using assms(2) run by simp
qed

lemma replaceRuns_unchanged:
  assumes "list_all (\<lambda>c. \<not> bad c) s"
  shows "replaceRuns bad s = s"
  using assms by (induction s) simp_all

lemma replaceRuns_safe: "\<forall>c \<in> set (replaceRuns bad s). c = 0x5f \<or> \<not> bad c"
proof (induction bad s rule: replaceRuns.induct)
  case (1 bad)
  then show ?case by simp
next
  case (2 bad c cs)
  then show ?case by (cases "bad c") simp_all
qed

text \<open>
  Claim C10, as amended. The download name is built from the facts label if it is present
  and not empty, else from the query text if that is not empty, else from \<open>postcard\<close>; in it
  every maximal run of characters that are not letters, numbers, underscore or hyphen is
  replaced by one underscore (a character outside the class is kept, a run that ends at the
  end of the text or before such a character becomes one underscore); an underscore, the
  date and \<open>.png\<close> follow.
\<close>

theorem download_name:
  "downloadPng p True s =
     Some (replaceRuns (unsafe p)
             (case label (facts s) of
                Some l \<Rightarrow> if l \<noteq> [] then l
                          else if place s \<noteq> [] then place s else ascii ''postcard''
              | None \<Rightarrow> if place s \<noteq> [] then place s else ascii ''postcard'') @
           ascii ''_'' @ date s @ ascii ''.png'') \<and>
   replaceRuns (unsafe p) [] = [] \<and>
   (\<not> unsafe p c \<longrightarrow> replaceRuns (unsafe p) (c # cs) = c # replaceRuns (unsafe p) cs) \<and>
   (run \<noteq> [] \<and> list_all (unsafe p) run \<and> (rest = [] \<or> \<not> unsafe p (hd rest)) \<longrightarrow>
      replaceRuns (unsafe p) (run @ rest) = 0x5f # replaceRuns (unsafe p) rest) \<and>
   (unsafe p c \<longleftrightarrow> \<not> (isLetter p c \<or> isNumber p c \<or> c = 0x5f \<or> c = 0x2d))"
proof -
  have name: "downloadPng p True s =
     Some (replaceRuns (unsafe p)
             (case label (facts s) of
                Some l \<Rightarrow> if l \<noteq> [] then l
                          else if place s \<noteq> [] then place s else ascii ''postcard''
              | None \<Rightarrow> if place s \<noteq> [] then place s else ascii ''postcard'') @
           ascii ''_'' @ date s @ ascii ''.png'')"
    by (simp add: downloadPng_def safeTitle_def or_else_def split: option.splits del: ascii_Cons)
  have run: "run \<noteq> [] \<and> list_all (unsafe p) run \<and> (rest = [] \<or> \<not> unsafe p (hd rest)) \<longrightarrow>
      replaceRuns (unsafe p) (run @ rest) = 0x5f # replaceRuns (unsafe p) rest"
    using replaceRuns_run [of run "unsafe p" rest] by blast
  have cls: "unsafe p c \<longleftrightarrow> \<not> (isLetter p c \<or> isNumber p c \<or> c = 0x5f \<or> c = 0x2d)"
    by (simp add: unsafe_def)
  show ?thesis
    using name run cls by simp
qed

theorem download_name_witness:
  "\<not> unsafe ascii_platform 0x4e \<and>
   ascii '', !'' \<noteq> [] \<and> list_all (unsafe ascii_platform) (ascii '', !'') \<and>
   \<not> unsafe ascii_platform (hd (ascii ''York'')) \<and>
   replaceRuns (unsafe ascii_platform) (ascii '', !'' @ ascii ''York'') =
     0x5f # replaceRuns (unsafe ascii_platform) (ascii ''York'') \<and>
   downloadPng ascii_platform True
     ((idle_state (ascii ''ny'') En)\<lparr> facts := no_facts\<lparr> label := Some (ascii ''New, !York'') \<rparr> \<rparr>) =
     Some (ascii ''New_York_2024-01-15.png'')"
proof -
  let ?s = "(idle_state (ascii ''ny'') En)\<lparr> facts := no_facts\<lparr> label := Some (ascii ''New, !York'') \<rparr> \<rparr>"
  have u: "\<not> unsafe ascii_platform 0x4e"
    by (simp add: unsafe_def ascii_platform_def asciiLetter_def)
  have r: "ascii '', !'' \<noteq> []" "list_all (unsafe ascii_platform) (ascii '', !'')"
    "\<not> unsafe ascii_platform (hd (ascii ''York''))"
    by (simp_all add: unsafe_def ascii_platform_def asciiLetter_def asciiDigit_def)
  have n: "replaceRuns (unsafe ascii_platform) (ascii ''New, !York'') = ascii ''New_York''"
    by (simp add: unsafe_def ascii_platform_def asciiLetter_def asciiDigit_def)
  have l: "label (facts ?s) = Some (ascii ''New, !York'')" "date ?s = ascii ''2024-01-15''"
    by (simp_all add: idle_state_def no_facts_def)
  have ne: "ascii ''New, !York'' \<noteq> []" by simp
  note th = download_name [of ascii_platform ?s "0x4e" "[]" "ascii '', !''" "ascii ''York''"]
  have name: "downloadPng ascii_platform True ?s =
      Some (replaceRuns (unsafe ascii_platform) (ascii ''New, !York'') @
            ascii ''_'' @ ascii ''2024-01-15'' @ ascii ''.png'')"
    using th [THEN conjunct1] by (simp add: l ne del: ascii_Cons)
  have runeq: "replaceRuns (unsafe ascii_platform) (ascii '', !'' @ ascii ''York'') =
      0x5f # replaceRuns (unsafe ascii_platform) (ascii ''York'')"
    using th r by blast
  have cat: "ascii ''New_York'' @ ascii ''_'' @ ascii ''2024-01-15'' @ ascii ''.png'' =
      ascii ''New_York_2024-01-15.png''"
    by simp
  have final: "downloadPng ascii_platform True ?s = Some (ascii ''New_York_2024-01-15.png'')"
    by (simp only: name n cat)
  show ?thesis
    using u r runeq final by blast
qed

text \<open>A label that is present and empty is passed over for the query text.\<close>

theorem empty_label_counterexample:
  "downloadPng ascii_platform True
     ((idle_state (ascii ''Tokyo'') En)\<lparr> facts := no_facts\<lparr> label := Some [] \<rparr> \<rparr>) =
     Some (ascii ''Tokyo_2024-01-15.png'') \<and>
   spec_download_name ascii_platform
     ((idle_state (ascii ''Tokyo'') En)\<lparr> facts := no_facts\<lparr> label := Some [] \<rparr> \<rparr>) =
     ascii ''_2024-01-15.png'' \<and>
   downloadPng ascii_platform True
     ((idle_state (ascii ''Tokyo'') En)\<lparr> facts := no_facts\<lparr> label := Some [] \<rparr> \<rparr>) \<noteq>
   Some (spec_download_name ascii_platform
     ((idle_state (ascii ''Tokyo'') En)\<lparr> facts := no_facts\<lparr> label := Some [] \<rparr> \<rparr>))"
  by (simp add: downloadPng_def safeTitle_def or_else_def spec_download_name_def spec_title_def
        idle_state_def no_facts_def unsafe_def ascii_platform_def asciiLetter_def asciiDigit_def)


end
